theory Spec2Isabelle
  imports Main "HOL-Library.Word" "HOL-Library.Sublist"
begin

section \<open>Common data\<close>

text \<open>
  Python \<^verbatim>\<open>bytes\<close> is a list of octets.  Python \<^verbatim>\<open>str\<close> is a sequence of Unicode
  code points; a code point is a natural number here, since the texts of this program
  are Chinese (HOL's \<open>char\<close> has eight bits only).
\<close>

type_synonym bytes = "8 word list"
type_synonym pystr = "nat list"

text \<open>
  The exceptions of the program.  \<open>ChannelClosed\<close> and \<open>DoubleClose\<close> are the
  stream-channel errors of the design document; \<open>EngineError\<close> stands for whatever an
  external engine raises.
\<close>

datatype error =
  ValueError | RuntimeError | TypeError | JSONDecodeError | ConnectionClosed |
  ChannelClosed | DoubleClose | EngineError

text \<open>ASCII literals of the source, as code-point sequences.\<close>

definition S :: "string \<Rightarrow> pystr" where
  "S cs = map of_char cs"

section \<open>car/audio/vad.py\<close>

text \<open>
  The detection backend (\<^verbatim>\<open>webrtcvad.Vad\<close>, or \<^verbatim>\<open>MockWebRTCVAD\<close> when the import
  failed) is an object with a state of its own.  It is a parameter of the model: a
  constructor and the method \<^verbatim>\<open>is_speech(audio_chunk, sample_rate)\<close>, which returns
  the classification and the backend's next state.  Both are taken to return (the
  \<^verbatim>\<open>try\<close> of the constructor only catches the \<^verbatim>\<open>NameError\<close> of the missing import,
  which selects the mock).
\<close>

record 'b vad_backend =
  new_vad :: "int \<Rightarrow> 'b"
  is_speech :: "'b \<Rightarrow> bytes \<Rightarrow> int \<Rightarrow> bool \<times> 'b"
  mock :: bool



definition SUPPORTED_VAD_RATES :: "int list" where
  "SUPPORTED_VAD_RATES = [8000, 16000, 32000, 48000]"

definition VAD_MODE :: int where
  "VAD_MODE = 3"

definition SILENCE_CHUNK_COUNT :: nat where
  "SILENCE_CHUNK_COUNT = 50"

record 'b VADDetector =
  sample_rate :: int
  chunk_duration_ms :: int
  chunk_size :: int
  vad :: 'b
  is_mock :: bool
  silence_chunks_count :: nat
  active_speech_detected :: bool
  frame_buffer :: "bytes list"

text \<open>
  \<^verbatim>\<open>int(n / d)\<close> for integers \<open>n\<close> and a positive \<open>d\<close>: the quotient, truncated
  towards zero.  Python computes the quotient as a float; its rounding is left out, which
  is exact as long as the quotient stays below \<open>2 ^ 53\<close> in absolute value.
\<close>

definition int_truediv :: "int \<Rightarrow> int \<Rightarrow> int" where
  "int_truediv n d = (if 0 \<le> n then n div d else - ((- n) div d))"

text \<open>\<^verbatim>\<open>collections.deque(maxlen=n).append(x)\<close>: the oldest elements leave on overflow.\<close>

definition deque_append :: "nat \<Rightarrow> 'a list \<Rightarrow> 'a \<Rightarrow> 'a list" where
  "deque_append maxlen xs x = (let ys = xs @ [x] in drop (length ys - maxlen) ys)"

text \<open>\<^verbatim>\<open>VADDetector.__init__\<close>\<close>

definition VADDetector_init ::
  "'b vad_backend \<Rightarrow> int \<Rightarrow> int \<Rightarrow> int \<Rightarrow> error + 'b VADDetector" where
  "VADDetector_init backend rate duration_ms aggressiveness =
     (if rate \<notin> set SUPPORTED_VAD_RATES then Inl ValueError
      else Inr \<lparr>sample_rate = rate,
                chunk_duration_ms = duration_ms,
                chunk_size = int_truediv (rate * duration_ms * 2) 1000,
                vad = new_vad backend aggressiveness,
                is_mock = mock backend,
                silence_chunks_count = 0,
                active_speech_detected = False,
                frame_buffer = []\<rparr>)"

text \<open>\<^verbatim>\<open>VADDetector.process_chunk\<close>: the classification and the detector afterwards.\<close>

definition process_chunk ::
  "'b vad_backend \<Rightarrow> 'b VADDetector \<Rightarrow> bytes \<Rightarrow> bool \<times> 'b VADDetector" where
  "process_chunk backend v audio_chunk =
     (if int (length audio_chunk) \<noteq> chunk_size v then (False, v)
      else
        (case is_speech backend (vad v) audio_chunk (sample_rate v) of
           (speech, b) \<Rightarrow>
             if speech
             then (True, v\<lparr>vad := b, active_speech_detected := True,
                            silence_chunks_count := 0\<rparr>)
             else (False,
                   v\<lparr>vad := b,
                     silence_chunks_count :=
                       (if active_speech_detected v then silence_chunks_count v + 1
                        else silence_chunks_count v),
                     frame_buffer :=
                       deque_append (SILENCE_CHUNK_COUNT div 2) (frame_buffer v) audio_chunk\<rparr>)))"

text \<open>\<^verbatim>\<open>VADDetector.is_silence_end\<close>\<close>

definition is_silence_end :: "'b VADDetector \<Rightarrow> bool \<times> 'b VADDetector" where
  "is_silence_end v =
     (if active_speech_detected v \<and> silence_chunks_count v > SILENCE_CHUNK_COUNT
      then (True, v\<lparr>active_speech_detected := False, silence_chunks_count := 0,
                     frame_buffer := []\<rparr>)
      else (False, v))"

text \<open>\<^verbatim>\<open>VADDetector.get_buffered_frames\<close>\<close>

definition get_buffered_frames :: "'b VADDetector \<Rightarrow> bytes list \<times> 'b VADDetector" where
  "get_buffered_frames v = (frame_buffer v, v\<lparr>frame_buffer := []\<rparr>)"

text \<open>\<^verbatim>\<open>VADDetector.reset\<close>\<close>

definition reset :: "'b VADDetector \<Rightarrow> 'b VADDetector" where
  "reset v = v\<lparr>silence_chunks_count := 0, active_speech_detected := False,
               frame_buffer := []\<rparr>"

text \<open>
  A caller that feeds the frames of an audio stream one by one and asks
  \<^verbatim>\<open>is_silence_end()\<close> after each of them (the simulation at the end of the module
  asks in the same way).  The result lists, per frame, the classification and the answer
  of \<^verbatim>\<open>is_silence_end()\<close>.
\<close>

fun feed_and_poll ::
  "'b vad_backend \<Rightarrow> 'b VADDetector \<Rightarrow> bytes list \<Rightarrow> (bool \<times> bool) list \<times> 'b VADDetector" where
  "feed_and_poll backend v [] = ([], v)"
| "feed_and_poll backend v (c # cs) =
     (case process_chunk backend v c of
        (speech, v1) \<Rightarrow>
          (case is_silence_end v1 of
             (ended, v2) \<Rightarrow>
               (case feed_and_poll backend v2 cs of
                  (rs, v3) \<Rightarrow> ((speech, ended) # rs, v3))))"

text \<open>
  A stateless backend for concrete runs: a frame is speech when one of its octets is not
  zero (the module's own simulation uses frames of \<^verbatim>\<open>0x00\<close> for silence and of
  \<^verbatim>\<open>0x55\<close> for speech).
\<close>

definition level_backend :: "unit vad_backend" where
  "level_backend =
     \<lparr>new_vad = (\<lambda>mode. ()),
      is_speech = (\<lambda>b audio_chunk rate. (list_ex (\<lambda>x. x \<noteq> 0) audio_chunk, b)),
      mock = False\<rparr>"

definition SILENCE_CHUNK :: bytes where
  "SILENCE_CHUNK = replicate 16 0"

definition NOISE_CHUNK :: bytes where
  "NOISE_CHUNK = replicate 16 85"

section \<open>server/pipeline/streaming_manager.py\<close>

text \<open>
  An \<^verbatim>\<open>asyncio.Queue()\<close> without a bound is the list of its items, oldest first; the
  item \<^verbatim>\<open>None\<close> is the end-of-stream mark.  The three queue classes have the same
  fields and the same code (\<^verbatim>\<open>PCMQueue.queue_id\<close> only appears in log messages and is
  left out).  A call either returns or raises, so the result of \<^verbatim>\<open>put\<close> is a sum.
\<close>

record 'a stream_queue =
  queue :: "'a option list"
  is_finished :: bool

type_synonym AudioQueue = "bytes stream_queue"
type_synonym TextQueue = "pystr stream_queue"
type_synonym PCMQueue = "bytes stream_queue"

definition AudioQueue_init :: AudioQueue where
  "AudioQueue_init = \<lparr>queue = [], is_finished = False\<rparr>"

definition AudioQueue_put :: "AudioQueue \<Rightarrow> bytes \<Rightarrow> error + AudioQueue" where
  "AudioQueue_put q chunk =
     (if \<not> is_finished q then Inr (q\<lparr>queue := queue q @ [Some chunk]\<rparr>) else Inr q)"

definition AudioQueue_close :: "AudioQueue \<Rightarrow> AudioQueue" where
  "AudioQueue_close q = q\<lparr>is_finished := True, queue := queue q @ [None]\<rparr>"

definition TextQueue_init :: TextQueue where
  "TextQueue_init = \<lparr>queue = [], is_finished = False\<rparr>"

definition TextQueue_put :: "TextQueue \<Rightarrow> pystr \<Rightarrow> error + TextQueue" where
  "TextQueue_put q text_chunk =
     (if \<not> is_finished q then Inr (q\<lparr>queue := queue q @ [Some text_chunk]\<rparr>) else Inr q)"

definition TextQueue_close :: "TextQueue \<Rightarrow> TextQueue" where
  "TextQueue_close q = q\<lparr>is_finished := True, queue := queue q @ [None]\<rparr>"

definition PCMQueue_init :: PCMQueue where
  "PCMQueue_init = \<lparr>queue = [], is_finished = False\<rparr>"

definition PCMQueue_put :: "PCMQueue \<Rightarrow> bytes \<Rightarrow> error + PCMQueue" where
  "PCMQueue_put q pcm_chunk =
     (if \<not> is_finished q then Inr (q\<lparr>queue := queue q @ [Some pcm_chunk]\<rparr>) else Inr q)"

definition PCMQueue_close :: "PCMQueue \<Rightarrow> PCMQueue" where
  "PCMQueue_close q = q\<lparr>is_finished := True, queue := queue q @ [None]\<rparr>"

text \<open>
  What \<^verbatim>\<open>async for chunk in q\<close> delivers when the queue holds these items: the chunks
  before the first \<^verbatim>\<open>None\<close>.  Without a \<^verbatim>\<open>None\<close> the consumer waits for ever after
  the last chunk.
\<close>

definition delivered :: "'a option list \<Rightarrow> 'a list" where
  "delivered items = map the (takeWhile (\<lambda>x. x \<noteq> None) items)"

record StreamingManager =
  audio_in_queue :: "AudioQueue option"
  llm_text_out_queue :: "TextQueue option"
  pcm_out_queue :: "PCMQueue option"

definition StreamingManager_init :: StreamingManager where
  "StreamingManager_init =
     \<lparr>audio_in_queue = None, llm_text_out_queue = None, pcm_out_queue = None\<rparr>"

definition start_new_conversation :: "StreamingManager \<Rightarrow> StreamingManager" where
  "start_new_conversation m =
     m\<lparr>audio_in_queue := Some AudioQueue_init,
       llm_text_out_queue := Some TextQueue_init,
       pcm_out_queue := Some PCMQueue_init\<rparr>"

definition get_queues ::
  "StreamingManager \<Rightarrow> error + (AudioQueue \<times> TextQueue \<times> PCMQueue)" where
  "get_queues m =
     (case (audio_in_queue m, llm_text_out_queue m, pcm_out_queue m) of
        (Some audio_in, Some text_out, Some pcm_out) \<Rightarrow> Inr (audio_in, text_out, pcm_out)
      | _ \<Rightarrow> Inl RuntimeError)"

text \<open>
  \<^verbatim>\<open>close_all\<close> closes the queue objects the manager holds and forgets them.  The
  manager's side is \<open>close_all\<close>; what happens to the objects themselves, which the
  tasks of a session hold too, is \<open>close_all_objects\<close>.
\<close>

definition close_all :: "StreamingManager \<Rightarrow> StreamingManager" where
  "close_all m = m\<lparr>audio_in_queue := None, llm_text_out_queue := None, pcm_out_queue := None\<rparr>"

definition close_all_objects ::
  "AudioQueue \<times> TextQueue \<times> PCMQueue \<Rightarrow> AudioQueue \<times> TextQueue \<times> PCMQueue" where
  "close_all_objects qs =
     (case qs of (audio_in, text_out, pcm_out) \<Rightarrow>
        (AudioQueue_close audio_in, TextQueue_close text_out, PCMQueue_close pcm_out))"

section \<open>server/api/protocol.py\<close>

text \<open>
  The values that travel through \<^verbatim>\<open>json.dumps\<close> and \<^verbatim>\<open>json.loads\<close>, and
  \<^verbatim>\<open>bytes\<close>, which \<^verbatim>\<open>json.dumps\<close> refuses.  A dictionary is the list of its items
  in insertion order; its keys are strings.
\<close>

datatype pyval =
  PNone | PBool bool | PInt int | PStr pystr | PBytes bytes |
  PList "pyval list" | PDict "(pystr \<times> pyval) list"

text \<open>
  A dataclass does not check the types of its fields, so a field holds any value.
  The fields are in the order of their declaration.
\<close>

datatype frame =
  AudioFrame pyval pyval pyval
| TextFrame pyval pyval pyval pyval
| ControlCmd pyval pyval pyval
| StatusMsg pyval pyval pyval

text \<open>
  \<^verbatim>\<open>json.dumps\<close> and \<^verbatim>\<open>json.loads\<close> belong to the standard library.  A string
  handed to \<^verbatim>\<open>json.loads\<close> either is a JSON text, identified here with the value it
  denotes, or is not one; \<^verbatim>\<open>json.dumps\<close> raises \<^verbatim>\<open>TypeError\<close> on \<^verbatim>\<open>bytes\<close>.
\<close>

datatype wire = JsonText pyval | NotJson pystr























fun is_AudioFrame :: "frame \<Rightarrow> bool" where
  "is_AudioFrame (AudioFrame seq pcm_data is_final) = True"
| "is_AudioFrame f = False"

section \<open>Strings and the action pattern\<close>

text \<open>
  \<^verbatim>\<open>str.isspace\<close> of one character, which is also what \<^verbatim>\<open>str.strip()\<close> removes
  and what \<^verbatim>\<open>\s\<close> matches in a pattern over \<^verbatim>\<open>str\<close>: the white-space code points of
  the Unicode database.
\<close>

definition isspace :: "nat \<Rightarrow> bool" where
  "isspace c =
     ((9 \<le> c \<and> c \<le> 13) \<or> (28 \<le> c \<and> c \<le> 32) \<or> c = 133 \<or> c = 160 \<or> c = 5760 \<or>
      (8192 \<le> c \<and> c \<le> 8202) \<or> c = 8232 \<or> c = 8233 \<or> c = 8239 \<or> c = 8287 \<or>
      c = 12288)"

definition strip :: "pystr \<Rightarrow> pystr" where
  "strip s = rev (dropWhile isspace (rev (dropWhile isspace s)))"

text \<open>\<^verbatim>\<open>w in s\<close> for strings.\<close>

fun contains :: "pystr \<Rightarrow> pystr \<Rightarrow> bool" where
  "contains w [] = (w = [])"
| "contains w (c # cs) = (prefix w (c # cs) \<or> contains w cs)"

text \<open>\<^verbatim>\<open>s.replace(old, "", 1)\<close>: the first occurrence of \<open>old\<close> leaves.\<close>

fun remove_first :: "pystr \<Rightarrow> pystr \<Rightarrow> pystr" where
  "remove_first old [] = []"
| "remove_first old (c # cs) =
     (if prefix old (c # cs) then drop (length old) (c # cs) else c # remove_first old cs)"

text \<open>\<^verbatim>\<open>s.replace(c, "")\<close> for a string \<open>c\<close> of one character.\<close>

definition remove_char :: "nat \<Rightarrow> pystr \<Rightarrow> pystr" where
  "remove_char c s = filter (\<lambda>x. x \<noteq> c) s"

text \<open>
  \<^verbatim>\<open>ACTION_PATTERN = re.compile(r"\[ACTION:([a-zA-Z_]+\([\w\d\s,.]*\))]")\<close>.

  \<^verbatim>\<open>\w\<close> is an alphanumeric character of the Unicode database or the underscore, and
  \<^verbatim>\<open>\d\<close> a decimal digit of it, which is alphanumeric too.  Below 128 these are the
  ASCII letters and digits; above, the database decides, and it is the parameter
  \<open>alnum\<close> of the model.
\<close>

definition name_char :: "nat \<Rightarrow> bool" where
  "name_char c = ((65 \<le> c \<and> c \<le> 90) \<or> (97 \<le> c \<and> c \<le> 122) \<or> c = 95)"

definition word_char :: "(nat \<Rightarrow> bool) \<Rightarrow> nat \<Rightarrow> bool" where
  "word_char alnum c =
     (c = 95 \<or>
      (if c < 128 then (48 \<le> c \<and> c \<le> 57) \<or> (65 \<le> c \<and> c \<le> 90) \<or> (97 \<le> c \<and> c \<le> 122)
       else alnum c))"

definition arg_char :: "(nat \<Rightarrow> bool) \<Rightarrow> nat \<Rightarrow> bool" where
  "arg_char alnum c = (word_char alnum c \<or> isspace c \<or> c = 44 \<or> c = 46)"

text \<open>
  A match of the pattern at the start of \<open>s\<close>: group 1 and what follows the match.
  The two repetitions are greedy, and the character that must follow each of them (an
  opening and a closing parenthesis) is outside its class, so only the longest run can
  lead to a match and there is nothing to backtrack into.
\<close>

definition match_here :: "(nat \<Rightarrow> bool) \<Rightarrow> pystr \<Rightarrow> (pystr \<times> pystr) option" where
  "match_here alnum s =
     (if prefix (S ''[ACTION:'') s
      then
        (let r1 = drop 8 s; name = takeWhile name_char r1; r2 = dropWhile name_char r1
         in if name = [] then None
            else
              (case r2 of
                 c1 # r3 \<Rightarrow>
                   if c1 = 40
                   then
                     (let args = takeWhile (arg_char alnum) r3;
                          r4 = dropWhile (arg_char alnum) r3
                      in (case r4 of
                            c2 # c3 # r5 \<Rightarrow>
                              if c2 = 41 \<and> c3 = 93
                              then Some (name @ [40] @ args @ [41], r5)
                              else None
                          | _ \<Rightarrow> None))
                   else None
               | [] \<Rightarrow> None))
      else None)"

text \<open>\<^verbatim>\<open>ACTION_PATTERN.search(s)\<close>: group 1 of the leftmost match.\<close>

fun re_search :: "(nat \<Rightarrow> bool) \<Rightarrow> pystr \<Rightarrow> pystr option" where
  "re_search alnum [] = None"
| "re_search alnum (c # cs) =
     (case match_here alnum (c # cs) of
        Some (g, r) \<Rightarrow> Some g
      | None \<Rightarrow> re_search alnum cs)"

text \<open>
  \<^verbatim>\<open>re.sub(ACTION_PATTERN, "", s)\<close>: every match leaves, from left to right.  The
  scan moves one character at a time; the first argument counts the characters of the
  current match that are still to be dropped.
\<close>

fun re_sub_scan :: "nat \<Rightarrow> (nat \<Rightarrow> bool) \<Rightarrow> pystr \<Rightarrow> pystr" where
  "re_sub_scan k alnum [] = []"
| "re_sub_scan (Suc k) alnum (c # cs) = re_sub_scan k alnum cs"
| "re_sub_scan 0 alnum (c # cs) =
     (case match_here alnum (c # cs) of
        Some (g, r) \<Rightarrow> re_sub_scan (length cs - length r) alnum cs
      | None \<Rightarrow> c # re_sub_scan 0 alnum cs)"

definition re_sub :: "(nat \<Rightarrow> bool) \<Rightarrow> pystr \<Rightarrow> pystr" where
  "re_sub alnum s = re_sub_scan 0 alnum s"

section \<open>server/models/asr_engine.py\<close>

text \<open>
  The SenseVoice model behind \<^verbatim>\<open>ASREngine\<close> is outside the repository: a stream state
  \<open>'s\<close>, created by \<^verbatim>\<open>create_stream\<close>, fed by \<^verbatim>\<open>process_chunk\<close> and ended by
  \<^verbatim>\<open>end_stream\<close>.
\<close>

record 's SenseVoiceModel =
  create_stream :: 's
  sdk_process_chunk :: "'s \<Rightarrow> bytes \<Rightarrow> pystr option \<times> 's"
  sdk_end_stream :: "'s \<Rightarrow> pystr option"

record 's ASREngine =
  wakeup_word :: pystr
  stream_instance :: "'s option"

definition end_stream :: "'s SenseVoiceModel \<Rightarrow> 's ASREngine \<Rightarrow> pystr option \<times> 's ASREngine" where
  "end_stream model asr =
     (case stream_instance asr of
        None \<Rightarrow> (None, asr)
      | Some st \<Rightarrow> (sdk_end_stream model st, asr\<lparr>stream_instance := None\<rparr>))"

definition start_stream :: "'s SenseVoiceModel \<Rightarrow> 's ASREngine \<Rightarrow> 's ASREngine" where
  "start_stream model asr =
     (let asr1 = (if stream_instance asr \<noteq> None then snd (end_stream model asr) else asr)
      in asr1\<lparr>stream_instance := Some (create_stream model)\<rparr>)"

definition transcribe_stream ::
  "'s SenseVoiceModel \<Rightarrow> 's ASREngine \<Rightarrow> bytes \<Rightarrow> error + (pystr option \<times> 's ASREngine)" where
  "transcribe_stream model asr audio_chunk =
     (case stream_instance asr of
        None \<Rightarrow> Inl RuntimeError
      | Some st \<Rightarrow>
          (case sdk_process_chunk model st audio_chunk of
             (text, st1) \<Rightarrow> Inr (text, asr\<lparr>stream_instance := Some st1\<rparr>)))"

text \<open>
  \<^verbatim>\<open>detect_wakeup_word\<close>: the three characters removed from the text before the search
  are the full-width comma (65292), the ideographic full stop (12290) and the space (32).
\<close>

definition detect_wakeup_word :: "'s ASREngine \<Rightarrow> pystr \<Rightarrow> bool" where
  "detect_wakeup_word asr text =
     (if text = [] then False
      else contains (wakeup_word asr)
             (remove_char 32 (remove_char 12290 (remove_char 65292 text))))"

section \<open>server/pipeline/conversation.py\<close>

text \<open>
  The pipeline is built from three engine objects.  The speech engine is the
  \<^verbatim>\<open>ASREngine\<close> above, around its external model.  Of the other two the pipeline only
  uses the generators \<^verbatim>\<open>llm_engine.chat_stream\<close> and
  \<^verbatim>\<open>tts_engine.synthesize_stream\<close>, which wrap external models: the model takes as
  given the finite sequence of fragments that the first yields for a prompt, and the
  chunks that the second yields for a text together with the exception that ends the
  generator, if any.  The alphanumeric characters of the Unicode database above code
  point 127 are given too.
\<close>

record 's env =
  model :: "'s SenseVoiceModel"
  chat_stream :: "pystr \<Rightarrow> pystr list"
  synthesize_stream :: "pystr \<Rightarrow> bytes list \<times> error option"
  unicode_alnum :: "nat \<Rightarrow> bool"

record 's ConversationPipeline =
  asr_engine :: "'s ASREngine"
  manager :: StreamingManager
  conversation_active :: bool

text \<open>The reply spoken when no wake phrase was heard.\<close>

definition APOLOGY :: pystr where
  "APOLOGY =
     [23545, 19981, 36215, 65292, 25105, 27809, 26377, 21548, 21040, 21796, 37266, 35789,
      65292, 35831, 20877, 35828, 19968, 27425, 12290]"

definition start_new_session :: "'s env \<Rightarrow> 's ConversationPipeline \<Rightarrow> 's ConversationPipeline" where
  "start_new_session E p =
     p\<lparr>manager := start_new_conversation (close_all (manager p)),
       asr_engine := start_stream (model E) (asr_engine p),
       conversation_active := False\<rparr>"

text \<open>Python's \<^verbatim>\<open>not x\<close> for an optional string: \<^verbatim>\<open>None\<close> and the empty string are false.\<close>

definition falsy :: "pystr option \<Rightarrow> bool" where
  "falsy x = (case x of None \<Rightarrow> True | Some s \<Rightarrow> s = [])"

text \<open>
  The loop of \<^verbatim>\<open>_llm_chat_and_parse\<close> over the fragments of the reply.  Its state is
  the three variables \<^verbatim>\<open>full_response\<close>, \<^verbatim>\<open>action_command\<close> and the queue
  \<^verbatim>\<open>text_out\<close>.  An exception inside the loop ends it (\<^verbatim>\<open>except Exception\<close>).
\<close>

fun llm_loop ::
  "(nat \<Rightarrow> bool) \<Rightarrow> pystr list \<Rightarrow> pystr \<times> pystr option \<times> TextQueue \<Rightarrow>
   pystr \<times> pystr option \<times> TextQueue" where
  "llm_loop alnum [] st = st"
| "llm_loop alnum (chunk # rest) (full_response, action_command, text_out) =
     (let full_response = full_response @ chunk;
          match = re_search alnum full_response;
          found = (match \<noteq> None \<and> falsy action_command);
          action_command = (if found then match else action_command);
          clean_chunk = (if found then re_sub alnum chunk else chunk)
      in if clean_chunk \<noteq> []
         then (case TextQueue_put text_out clean_chunk of
                 Inl e \<Rightarrow> (full_response, action_command, text_out)
               | Inr text_out1 \<Rightarrow> llm_loop alnum rest (full_response, action_command, text_out1))
         else llm_loop alnum rest (full_response, action_command, text_out))"

text \<open>
  \<^verbatim>\<open>_llm_chat_and_parse\<close> returns nothing; its effect is on \<^verbatim>\<open>text_out\<close>, which it
  closes at the end (\<^verbatim>\<open>finally\<close>).
\<close>

definition llm_chat_and_parse :: "'s env \<Rightarrow> pystr \<Rightarrow> TextQueue \<Rightarrow> TextQueue" where
  "llm_chat_and_parse E command_text text_out =
     (case llm_loop (unicode_alnum E) (chat_stream E command_text) ([], None, text_out) of
        (full_response, action_command, text_out1) \<Rightarrow> TextQueue_close text_out1)"

text \<open>
  The loop of \<^verbatim>\<open>_asr_to_llm\<close> over the chunks that \<^verbatim>\<open>audio_in\<close> delivers before it
  closes; \<open>asr_step\<close> is its body.  \<^verbatim>\<open>asyncio.create_task(self._llm_chat_and_parse(...))\<close>
  starts a task that has no point of suspension of its own (a \<^verbatim>\<open>put\<close> on a queue
  without bound never waits), so it runs in one piece as soon as the loop waits for the
  next chunk; the model runs it where it is created.  Besides the variables of the loop
  the state lists the prompts handed to the generation stage.  An exception ends the
  loop and leaves the state as it is at that point.
\<close>

definition asr_step ::
  "'s env \<Rightarrow> 's ConversationPipeline \<times> pystr \<times> TextQueue \<times> pystr list \<Rightarrow> bytes \<Rightarrow>
   error option \<times> 's ConversationPipeline \<times> pystr \<times> TextQueue \<times> pystr list" where
  "asr_step E st audio_chunk =
     (case st of (p, full_transcription, text_out, prompts) \<Rightarrow>
        (case transcribe_stream (model E) (asr_engine p) audio_chunk of
           Inl e \<Rightarrow> (Some e, p, full_transcription, text_out, prompts)
         | Inr (interim_text, asr) \<Rightarrow>
             (let p = p\<lparr>asr_engine := asr\<rparr>
              in if \<not> falsy interim_text
                 then
                   (let full_transcription = full_transcription @ the interim_text
                    in if \<not> conversation_active p \<and>
                          detect_wakeup_word (asr_engine p) full_transcription
                       then
                         (let p = p\<lparr>conversation_active := True\<rparr>;
                              command_text =
                                strip (remove_first (wakeup_word (asr_engine p))
                                         full_transcription)
                          in (None, p, full_transcription,
                              llm_chat_and_parse E command_text text_out,
                              prompts @ [command_text]))
                       else (None, p, full_transcription, text_out, prompts))
                 else (None, p, full_transcription, text_out, prompts))))"

fun asr_loop ::
  "'s env \<Rightarrow> bytes list \<Rightarrow> 's ConversationPipeline \<times> pystr \<times> TextQueue \<times> pystr list \<Rightarrow>
   error option \<times> 's ConversationPipeline \<times> pystr \<times> TextQueue \<times> pystr list" where
  "asr_loop E [] st = (None, st)"
| "asr_loop E (audio_chunk # rest) st =
     (case asr_step E st audio_chunk of
        (Some e, st1) \<Rightarrow> (Some e, st1)
      | (None, st1) \<Rightarrow> asr_loop E rest st1)"

text \<open>
  \<^verbatim>\<open>_asr_to_llm\<close>.  The dictionary it returns has the keys
  \<^verbatim>\<open>final_transcription\<close> and \<^verbatim>\<open>action_command\<close>; the latter is the local variable
  of this function, which is set to \<^verbatim>\<open>None\<close> at the start and never assigned again.
  The value of \<^verbatim>\<open>end_stream()\<close> is only printed.
\<close>

record asr_result =
  final_transcription :: pystr
  action_command :: "pystr option"

definition asr_to_llm ::
  "'s env \<Rightarrow> 's ConversationPipeline \<Rightarrow> bytes list \<Rightarrow> TextQueue \<Rightarrow>
   (error + asr_result) \<times> 's ConversationPipeline \<times> TextQueue \<times> pystr list" where
  "asr_to_llm E p audio text_out =
     (case asr_loop E audio (p, [], text_out, []) of
        (Some e, p1, full_transcription, text_out1, prompts) \<Rightarrow>
          (Inl e, p1, text_out1, prompts)
      | (None, p1, full_transcription, text_out1, prompts) \<Rightarrow>
          (let p2 = p1\<lparr>asr_engine := snd (end_stream (model E) (asr_engine p1))\<rparr>
           in if \<not> conversation_active p2
              then
                (case TextQueue_put text_out1 APOLOGY of
                   Inl e \<Rightarrow> (Inl e, p2, text_out1, prompts)
                 | Inr text_out2 \<Rightarrow>
                     (Inr \<lparr>final_transcription = full_transcription,
                           action_command = None\<rparr>,
                      p2, TextQueue_close text_out2, prompts))
              else
                (Inr \<lparr>final_transcription = full_transcription,
                      action_command = None\<rparr>,
                 p2, text_out1, prompts)))"

text \<open>
  \<^verbatim>\<open>_llm_to_tts\<close> over the items of \<^verbatim>\<open>text_in\<close>.  When the items end without the
  end-of-stream mark the task waits for ever: the result is \<open>None\<close>.
\<close>

fun put_all :: "PCMQueue \<Rightarrow> bytes list \<Rightarrow> error option \<times> PCMQueue" where
  "put_all pcm_out [] = (None, pcm_out)"
| "put_all pcm_out (pcm_chunk # rest) =
     (case PCMQueue_put pcm_out pcm_chunk of
        Inl e \<Rightarrow> (Some e, pcm_out)
      | Inr pcm_out1 \<Rightarrow> put_all pcm_out1 rest)"

fun llm_to_tts ::
  "'s env \<Rightarrow> pystr option list \<Rightarrow> PCMQueue \<Rightarrow> (error option \<times> PCMQueue) option" where
  "llm_to_tts E [] pcm_out = None"
| "llm_to_tts E (None # items) pcm_out = Some (None, PCMQueue_close pcm_out)"
| "llm_to_tts E (Some text_chunk # items) pcm_out =
     (case synthesize_stream E text_chunk of
        (pcm_stream, raised) \<Rightarrow>
          (case put_all pcm_out pcm_stream of
             (Some e, pcm_out1) \<Rightarrow> Some (Some e, pcm_out1)
           | (None, pcm_out1) \<Rightarrow>
               (case raised of
                  Some e \<Rightarrow> Some (Some e, pcm_out1)
                | None \<Rightarrow> llm_to_tts E items pcm_out1)))"

text \<open>
  \<^verbatim>\<open>run_pipeline\<close>.  The queue \<^verbatim>\<open>audio_in\<close> holds what its producer puts during the
  session; without an end-of-stream mark in it the transcription loop waits for ever
  and the function never returns (\<open>None\<close>), and so it does when the synthesis task waits
  for ever.  \<^verbatim>\<open>get_queues\<close> is called before the \<^verbatim>\<open>try\<close>, so its
  \<^verbatim>\<open>RuntimeError\<close> leaves the function.  Otherwise the function returns the pair of
  the source, here with the pipeline and the three queue objects as \<^verbatim>\<open>finally\<close>
  leaves them.
\<close>

record 's outcome =
  success :: bool
  command :: "pystr option"
  final_pipeline :: "'s ConversationPipeline"
  final_audio_in :: AudioQueue
  final_text_out :: TextQueue
  final_pcm_out :: PCMQueue

definition finish ::
  "bool \<Rightarrow> pystr option \<Rightarrow> 's ConversationPipeline \<Rightarrow> AudioQueue \<times> TextQueue \<times> PCMQueue \<Rightarrow>
   's outcome" where
  "finish ok cmd p qs =
     (case close_all_objects qs of
        (a, t, c) \<Rightarrow>
          \<lparr>success = ok, command = cmd,
           final_pipeline = p\<lparr>manager := close_all (manager p)\<rparr>,
           final_audio_in = a, final_text_out = t, final_pcm_out = c\<rparr>)"

definition run_pipeline ::
  "'s env \<Rightarrow> 's ConversationPipeline \<Rightarrow> (error + 's outcome) option" where
  "run_pipeline E p =
     (case get_queues (manager p) of
        Inl e \<Rightarrow> Some (Inl e)
      | Inr (audio_in, text_out, pcm_out) \<Rightarrow>
          if None \<notin> set (queue audio_in) then None
          else
            (case asr_to_llm E p (delivered (queue audio_in)) text_out of
               (Inl e, p1, text_out1, prompts) \<Rightarrow>
                 Some (Inr (finish False None p1 (audio_in, text_out1, pcm_out)))
             | (Inr final_result, p1, text_out1, prompts) \<Rightarrow>
                 (case llm_to_tts E (queue text_out1) pcm_out of
                    None \<Rightarrow> None
                  | Some (Some e, pcm_out1) \<Rightarrow>
                      Some (Inr (finish False None p1 (audio_in, text_out1, pcm_out1)))
                  | Some (None, pcm_out1) \<Rightarrow>
                      Some (Inr (finish True (action_command final_result) p1
                                   (audio_in, text_out1, pcm_out1))))))"

text \<open>
  What a caller sees of a run: the pair that \<^verbatim>\<open>run_pipeline\<close> returns, and the text
  that reached the synthesis stage, which is the concatenation of the fragments put on
  \<^verbatim>\<open>text_out\<close>.
\<close>

definition returned :: "(error + 's outcome) option \<Rightarrow> (bool \<times> pystr option) option" where
  "returned r = (case r of Some (Inr out) \<Rightarrow> Some (success out, command out) | _ \<Rightarrow> None)"

definition spoken :: "(error + 's outcome) option \<Rightarrow> pystr option" where
  "spoken r =
     (case r of
        Some (Inr out) \<Rightarrow> Some (concat (delivered (queue (final_text_out out))))
      | _ \<Rightarrow> None)"

section \<open>server/api/server.py\<close>

text \<open>
  A connection is named by a number.  What the server does on the network is the list
  of its events.  The three path handlers run a whole session on the connection
  (\<^verbatim>\<open>_audio_in_handler\<close>, \<^verbatim>\<open>_audio_out_handler\<close>, \<^verbatim>\<open>_control_handler\<close>); for
  \<^verbatim>\<open>_handle_connection\<close> they are parameters that return the exception they end with,
  if any, the server afterwards and their events.
\<close>

type_synonym websocket = nat

datatype ws_event =
  WsClose websocket int pystr
| WsSendBinary websocket bytes
| WsSendText websocket wire

record 's PetCarServer =
  pipeline :: "'s ConversationPipeline"
  car_connection :: "websocket option"
  current_audio_queue :: "AudioQueue option"
  current_pcm_queue :: "PCMQueue option"

record 's path_handlers =
  audio_in_handler ::
    "'s PetCarServer \<Rightarrow> websocket \<Rightarrow> error option \<times> 's PetCarServer \<times> ws_event list"
  audio_out_handler ::
    "'s PetCarServer \<Rightarrow> websocket \<Rightarrow> error option \<times> 's PetCarServer \<times> ws_event list"
  control_handler ::
    "'s PetCarServer \<Rightarrow> websocket \<Rightarrow> error option \<times> 's PetCarServer \<times> ws_event list"

text \<open>\<^verbatim>\<open>ConversationPipeline.is_active\<close>\<close>

definition is_active :: "'s ConversationPipeline \<Rightarrow> bool" where
  "is_active p = (audio_in_queue (manager p) \<noteq> None)"

text \<open>
  The \<^verbatim>\<open>finally\<close> block of \<^verbatim>\<open>_handle_connection\<close>.  While the manager holds queues,
  \<^verbatim>\<open>current_audio_queue\<close> and \<^verbatim>\<open>current_pcm_queue\<close> are the same objects
  (\<^verbatim>\<open>_audio_in_handler\<close> fetches them right after \<^verbatim>\<open>start_new_session\<close>), so closing
  the manager's queues closes them.
\<close>

definition connection_finally :: "'s PetCarServer \<Rightarrow> 's PetCarServer" where
  "connection_finally srv =
     (let srv = srv\<lparr>car_connection := None\<rparr>
      in if is_active (pipeline srv)
         then srv\<lparr>pipeline := (pipeline srv)\<lparr>manager := close_all (manager (pipeline srv))\<rparr>,
                  current_audio_queue := map_option AudioQueue_close (current_audio_queue srv),
                  current_pcm_queue := map_option PCMQueue_close (current_pcm_queue srv)\<rparr>
         else srv)"

text \<open>
  \<^verbatim>\<open>_handle_connection\<close>.  \<^verbatim>\<open>ConnectionClosed\<close> is caught; any other exception of
  a handler leaves the function after the \<^verbatim>\<open>finally\<close> block.
\<close>

definition handle_connection ::
  "'s path_handlers \<Rightarrow> 's PetCarServer \<Rightarrow> websocket \<Rightarrow> pystr \<Rightarrow>
   error option \<times> 's PetCarServer \<times> ws_event list" where
  "handle_connection H srv ws path =
     (if car_connection srv \<noteq> None
      then (None, srv, [WsClose ws 1008 (S ''Already connected'')])
      else
        (let srv = srv\<lparr>car_connection := Some ws\<rparr>
         in case (if path = S ''/audio/in'' then audio_in_handler H srv ws
                  else if path = S ''/audio/out'' then audio_out_handler H srv ws
                  else if path = S ''/control'' then control_handler H srv ws
                  else (None, srv, [WsClose ws 1000 (S ''Unknown path'')]))
            of (raised, srv1, events) \<Rightarrow>
                 ((if raised = Some ConnectionClosed then None else raised),
                  connection_finally srv1, events)))"

section \<open>Concrete inputs\<close>

text \<open>A detector at 8000 Hz with frames of one millisecond (sixteen octets).\<close>

definition demo_vad :: "unit VADDetector" where
  "demo_vad =
     \<lparr>sample_rate = 8000, chunk_duration_ms = 1, chunk_size = 16, vad = (),
      is_mock = False, silence_chunks_count = 0, active_speech_detected = False,
      frame_buffer = []\<rparr>"

definition utterance :: "bytes list" where
  "utterance = NOISE_CHUNK # replicate (SILENCE_CHUNK_COUNT + 1) SILENCE_CHUNK"

definition long_silence :: "bytes list" where
  "long_silence = replicate 60 SILENCE_CHUNK"

text \<open>
  A speech model that follows a script: the \<open>n\<close>-th chunk of audio yields the \<open>n\<close>-th
  entry.  With it, an environment whose reply generator yields the given fragments and
  whose synthesiser yields one chunk of two octets for a text that is not empty.  No
  character above code point 127 stands between the parentheses of a tag in the inputs
  below, so for them it does not matter which of these characters are alphanumeric;
  \<open>plain_alnum\<close> takes none.
\<close>

definition plain_alnum :: "nat \<Rightarrow> bool" where
  "plain_alnum c = False"

definition scripted_model :: "pystr option list \<Rightarrow> pystr option list SenseVoiceModel" where
  "scripted_model script =
     \<lparr>create_stream = script,
      sdk_process_chunk =
        (\<lambda>st audio_chunk. case st of [] \<Rightarrow> (None, []) | t # ts \<Rightarrow> (t, ts)),
      sdk_end_stream = (\<lambda>st. None)\<rparr>"

definition scripted_env :: "pystr option list \<Rightarrow> pystr list \<Rightarrow> pystr option list env" where
  "scripted_env script reply =
     \<lparr>model = scripted_model script,
      chat_stream = (\<lambda>prompt. reply),
      synthesize_stream = (\<lambda>text. (if text = [] then [] else [[1, 1]], None)),
      unicode_alnum = plain_alnum\<rparr>"

text \<open>The wake phrase of \<^verbatim>\<open>server/config.py\<close> and a pipeline as its constructor leaves it.\<close>

definition WAKE :: pystr where
  "WAKE = [23567, 36710, 23567, 36710]"

definition new_pipeline :: "pystr option list ConversationPipeline" where
  "new_pipeline =
     \<lparr>asr_engine = \<lparr>wakeup_word = WAKE, stream_instance = None\<rparr>,
      manager = StreamingManager_init, conversation_active = False\<rparr>"

text \<open>
  The producer of \<^verbatim>\<open>audio_in\<close> (\<^verbatim>\<open>_audio_in_handler\<close>): one \<^verbatim>\<open>put\<close> per chunk, then
  \<^verbatim>\<open>close\<close>, on the queue the manager holds.
\<close>

fun AudioQueue_put_all :: "AudioQueue \<Rightarrow> bytes list \<Rightarrow> AudioQueue" where
  "AudioQueue_put_all q [] = q"
| "AudioQueue_put_all q (chunk # rest) =
     (case AudioQueue_put q chunk of Inr q1 \<Rightarrow> AudioQueue_put_all q1 rest | Inl e \<Rightarrow> q)"

definition upload :: "bytes list \<Rightarrow> 's ConversationPipeline \<Rightarrow> 's ConversationPipeline" where
  "upload chunks p =
     p\<lparr>manager := (manager p)\<lparr>audio_in_queue :=
          map_option (\<lambda>q. AudioQueue_close (AudioQueue_put_all q chunks))
            (audio_in_queue (manager p))\<rparr>\<rparr>"

text \<open>
  Three sessions of one chunk of audio each.  In the first two the transcript is the
  wake phrase, a comma and a request, and the reply carries action tags, in whole
  fragments or character by character (as the mock of \<^verbatim>\<open>LLMEngine\<close> streams it).  In
  the third the transcript has no wake phrase.
\<close>

definition REQUEST :: pystr where
  "REQUEST = WAKE @ [65292, 21069, 36827]"

definition env_whole :: "pystr option list env" where
  "env_whole =
     scripted_env [Some REQUEST] [S ''OK '', S ''[ACTION:forward(5)]'', S '' [ACTION:stop()]'']"

definition env_chars :: "pystr option list env" where
  "env_chars = scripted_env [Some REQUEST] (map (\<lambda>c. [c]) (S ''OK [ACTION:forward(5)]''))"

definition env_no_wake :: "pystr option list env" where
  "env_no_wake = scripted_env [Some [21069, 36827]] []"

definition session :: "pystr option list env \<Rightarrow> pystr option list ConversationPipeline" where
  "session E = upload [[0, 0]] (start_new_session E new_pipeline)"

text \<open>A server with a car connected, and handlers that return at once.\<close>

definition idle_handlers :: "pystr option list path_handlers" where
  "idle_handlers =
     \<lparr>audio_in_handler = (\<lambda>srv ws. (None, srv, [])),
      audio_out_handler = (\<lambda>srv ws. (None, srv, [])),
      control_handler = (\<lambda>srv ws. (None, srv, []))\<rparr>"

definition busy_server :: "pystr option list PetCarServer" where
  "busy_server =
     \<lparr>pipeline = start_new_session env_no_wake new_pipeline,
      car_connection = Some 1,
      current_audio_queue = Some AudioQueue_init,
      current_pcm_queue = Some PCMQueue_init\<rparr>"

text \<open>
  Three more transcripts: the wake phrase split by an ASCII comma, the wake phrase split
  by a full-width comma and followed by a request, and the wake phrase followed by a
  space and a request.
\<close>

definition SPLIT_ASCII :: pystr where
  "SPLIT_ASCII = [23567, 36710, 44, 23567, 36710]"

definition SPLIT_WIDE :: pystr where
  "SPLIT_WIDE = [23567, 36710, 65292, 23567, 36710, 21069, 36827]"

definition SPACED :: pystr where
  "SPACED = WAKE @ [32, 21069, 36827]"

definition listening :: "pystr \<Rightarrow> pystr option list ConversationPipeline" where
  "listening transcript = start_new_session (scripted_env [Some transcript] []) new_pipeline"

definition heard :: "pystr option list ConversationPipeline" where
  "heard =
     \<lparr>asr_engine = \<lparr>wakeup_word = WAKE, stream_instance = Some []\<rparr>,
      manager = start_new_conversation StreamingManager_init, conversation_active = False\<rparr>"





section \<open>Construction of the detector\<close>




section \<open>The detector at work\<close>

lemma demo_vad_init: "VADDetector_init level_backend 8000 1 3 = Inr demo_vad"
  by (simp add: VADDetector_init_def SUPPORTED_VAD_RATES_def level_backend_def demo_vad_def int_truediv_def)

lemma process_chunk_config:
  "process_chunk backend v c = (speech, v') \<Longrightarrow> chunk_size v' = chunk_size v"
  by (auto simp: process_chunk_def split: if_splits prod.splits)

lemma is_silence_end_config:
  "is_silence_end v = (ended, v') \<Longrightarrow> chunk_size v' = chunk_size v"
  by (auto simp: is_silence_end_def split: if_splits)

lemma process_chunk_not_speech_active:
  "process_chunk backend v c = (False, v') \<Longrightarrow>
     active_speech_detected v' = active_speech_detected v"
  by (auto simp: process_chunk_def split: if_splits prod.splits)

lemma is_silence_end_inactive:
  "\<not> active_speech_detected v \<Longrightarrow> is_silence_end v = (False, v)"
  by (simp add: is_silence_end_def)

lemma silence_only_never_ends:
  "\<not> active_speech_detected v \<Longrightarrow> feed_and_poll backend v cs = (rs, v') \<Longrightarrow>
   list_all (\<lambda>r. \<not> fst r) rs \<Longrightarrow>
   list_all (\<lambda>r. \<not> snd r) rs \<and> \<not> active_speech_detected v'"
proof (induction cs arbitrary: v rs v')
  case Nil
  then show ?case by simp
next
  case (Cons c cs)
  obtain speech v1 where pc: "process_chunk backend v c = (speech, v1)"
    by (cases "process_chunk backend v c")
  obtain rs' v3 where rest: "feed_and_poll backend v1 cs = (rs', v3)"
    by (cases "feed_and_poll backend v1 cs")
  show ?case
  proof (cases speech)
    case True
    with pc Cons.prems show ?thesis
      by (auto split: prod.splits)
  next
    case False
    with pc have "process_chunk backend v c = (False, v1)"
      by simp
    then have inact: "\<not> active_speech_detected v1"
      using Cons.prems(1) by (simp add: process_chunk_not_speech_active)
    then have poll: "is_silence_end v1 = (False, v1)"
      by (rule is_silence_end_inactive)
    from Cons.prems(2) pc poll rest False
    have rs: "rs = (False, False) # rs'" and v': "v' = v3"
      by auto
    from Cons.prems(3) rs have "list_all (\<lambda>r. \<not> fst r) rs'"
      by simp
    from Cons.IH [OF inact rest this] rs v' show ?thesis
      by simp
  qed
qed

lemma silence_run_counts:
  "active_speech_detected v \<Longrightarrow>
   list_all (\<lambda>c. int (length c) = chunk_size v) cs \<Longrightarrow>
   feed_and_poll backend v cs = (rs, v') \<Longrightarrow>
   list_all (\<lambda>r. \<not> fst r) rs \<Longrightarrow>
   silence_chunks_count v + length cs \<le> SILENCE_CHUNK_COUNT \<Longrightarrow>
   list_all (\<lambda>r. \<not> snd r) rs \<and> active_speech_detected v' \<and>
   silence_chunks_count v' = silence_chunks_count v + length cs \<and>
   chunk_size v' = chunk_size v \<and> length rs = length cs"
proof (induction cs arbitrary: v rs v')
  case Nil
  then show ?case by simp
next
  case (Cons c cs)
  obtain speech v1 where pc: "process_chunk backend v c = (speech, v1)"
    by (cases "process_chunk backend v c")
  obtain rs' v3 where rest: "feed_and_poll backend v1 cs = (rs', v3)"
    by (cases "feed_and_poll backend v1 cs")
  have size: "int (length c) = chunk_size v"
    using Cons.prems(2) by simp
  have nsp: "\<not> speech"
    using Cons.prems(3,4) pc by (auto split: prod.splits)
  from pc nsp size Cons.prems(1)
  have v1: "active_speech_detected v1" "silence_chunks_count v1 = silence_chunks_count v + 1"
    "chunk_size v1 = chunk_size v"
    by (auto simp: process_chunk_def split: if_splits prod.splits)
  have poll: "is_silence_end v1 = (False, v1)"
    using v1 Cons.prems(5) by (simp add: is_silence_end_def)
  from Cons.prems(3) pc poll rest nsp
  have rs: "rs = (False, False) # rs'" and v': "v' = v3"
    by auto
  have "list_all (\<lambda>c. int (length c) = chunk_size v1) cs"
    using Cons.prems(2) v1 by simp
  moreover have "list_all (\<lambda>r. \<not> fst r) rs'"
    using Cons.prems(4) rs by simp
  moreover have "silence_chunks_count v1 + length cs \<le> SILENCE_CHUNK_COUNT"
    using Cons.prems(5) v1 by simp
  ultimately show ?case
    using Cons.IH [OF v1(1) _ rest] rs v' v1 by simp
qed

lemma feed_and_poll_append:
  "feed_and_poll backend v (xs @ ys) =
     (case feed_and_poll backend v xs of
        (r1, v1) \<Rightarrow> (case feed_and_poll backend v1 ys of (r2, v2) \<Rightarrow> (r1 @ r2, v2)))"
  by (induction xs arbitrary: v) (auto split: prod.splits)

lemma feed_and_poll_length:
  "feed_and_poll backend v cs = (rs, v') \<Longrightarrow> length rs = length cs"
  by (induction cs arbitrary: v rs) (auto split: prod.splits)

lemma all_False_if_replicate:
  assumes "map f rs = replicate n False"
  shows "list_all (\<lambda>r. \<not> f r) rs"
proof -
  from assms have "set (map f rs) \<subseteq> {False}"
    by (simp add: set_replicate_conv_if)
  then show ?thesis
    by (auto simp: list_all_iff)
qed

lemma speech_then_silence:
  assumes size: "list_all (\<lambda>c. int (length c) = chunk_size v) cs"
    and run: "feed_and_poll backend v cs = (rs, v')"
    and cls: "map fst rs = True # replicate (SILENCE_CHUNK_COUNT + 1) False"
  shows "map snd rs = replicate (SILENCE_CHUNK_COUNT + 1) False @ [True] \<and>
         \<not> active_speech_detected v' \<and> silence_chunks_count v' = 0 \<and>
         frame_buffer v' = [] \<and> chunk_size v' = chunk_size v"
proof -
  have len: "length cs = SILENCE_CHUNK_COUNT + 2"
    using feed_and_poll_length [OF run] cls
    by (metis length_map length_Cons length_replicate Suc_eq_plus1 add_Suc_right one_add_one)
  then obtain f t where ft: "cs = f # t" and lt: "length t = SILENCE_CHUNK_COUNT + 1"
    by (cases cs) auto
  from lt obtain gs g where t: "t = gs @ [g]" and lgs: "length gs = SILENCE_CHUNK_COUNT"
    by (cases t rule: rev_cases) auto
  have cs: "cs = f # gs @ [g]"
    using ft t by simp
  obtain sp v1 where pc: "process_chunk backend v f = (sp, v1)"
    by (cases "process_chunk backend v f")
  obtain e1 v1' where p1: "is_silence_end v1 = (e1, v1')"
    by (cases "is_silence_end v1")
  obtain rs2 v2 where r2: "feed_and_poll backend v1' gs = (rs2, v2)"
    by (cases "feed_and_poll backend v1' gs")
  obtain rs3 v3 where r3: "feed_and_poll backend v2 [g] = (rs3, v3)"
    by (cases "feed_and_poll backend v2 [g]")
  have rs: "rs = (sp, e1) # rs2 @ rs3" and v': "v' = v3"
    using run pc p1 r2 r3 by (simp_all add: cs feed_and_poll_append)
  have l2: "length rs2 = SILENCE_CHUNK_COUNT"
    using feed_and_poll_length [OF r2] lgs by simp
  have l3: "length rs3 = 1"
    using feed_and_poll_length [OF r3] by simp
  from cls rs have sp: "sp" and tail: "map fst rs2 @ map fst rs3 = replicate SILENCE_CHUNK_COUNT False @ [False]"
    by (simp_all add: replicate_append_same)
  from tail l2 have c2: "map fst rs2 = replicate SILENCE_CHUNK_COUNT False"
    and c3: "map fst rs3 = [False]"
    by simp_all
  have fsize: "int (length f) = chunk_size v"
    using size cs by simp
  from pc sp fsize have v1: "active_speech_detected v1" "silence_chunks_count v1 = 0"
    "chunk_size v1 = chunk_size v"
    by (auto simp: process_chunk_def split: if_splits prod.splits)
  from p1 v1 have e1: "\<not> e1" and v1': "v1' = v1"
    by (auto simp: is_silence_end_def)
  have "list_all (\<lambda>r. \<not> fst r) rs2"
    using c2 by (rule all_False_if_replicate)
  moreover have "list_all (\<lambda>c. int (length c) = chunk_size v1) gs"
    using size cs v1 by simp
  moreover have "silence_chunks_count v1 + length gs \<le> SILENCE_CHUNK_COUNT"
    using v1 lgs by simp
  ultimately have mid: "list_all (\<lambda>r. \<not> snd r) rs2" "active_speech_detected v2"
    "silence_chunks_count v2 = SILENCE_CHUNK_COUNT" "chunk_size v2 = chunk_size v"
    using silence_run_counts [OF v1(1) _ r2 [unfolded v1']] v1 lgs by simp_all
  have m2: "map snd rs2 = replicate SILENCE_CHUNK_COUNT False"
    using mid(1) l2 by (auto simp: list_all_iff intro!: replicate_eqI)
  obtain sp3 v4 where pc3: "process_chunk backend v2 g = (sp3, v4)"
    by (cases "process_chunk backend v2 g")
  obtain e3 v5 where p3: "is_silence_end v4 = (e3, v5)"
    by (cases "is_silence_end v4")
  from r3 pc3 p3 have rs3: "rs3 = [(sp3, e3)]" and v3: "v3 = v5"
    by simp_all
  from c3 rs3 have nsp3: "\<not> sp3"
    by simp
  have gsize: "int (length g) = chunk_size v2"
    using size cs mid by simp
  from pc3 nsp3 gsize mid have v4: "active_speech_detected v4"
    "silence_chunks_count v4 = SILENCE_CHUNK_COUNT + 1" "chunk_size v4 = chunk_size v"
    by (auto simp: process_chunk_def split: if_splits prod.splits)
  from p3 v4 have e3: "e3" and v5: "\<not> active_speech_detected v5" "silence_chunks_count v5 = 0"
    "frame_buffer v5 = []" "chunk_size v5 = chunk_size v"
    by (auto simp: is_silence_end_def)
  show ?thesis
    using rs rs3 e1 e3 m2 v' v3 v5 by (simp add: replicate_append_same)
qed

text \<open>
  C4.  From the initial detector, one frame classified as speech and then silence: asked
  after each frame, \<^verbatim>\<open>is_silence_end()\<close> answers false for the speech frame and for the
  first \<open>SILENCE_CHUNK_COUNT\<close> frames of silence, and true on the next one, the frame with
  which the count of silent frames exceeds \<open>SILENCE_CHUNK_COUNT\<close>.  With that answer the
  detector is reset (not active, count zero, frame buffer empty), and a second sequence
  of the same kind gets the same answers.
\<close>

theorem vad_end_detection:
  assumes init: "VADDetector_init backend rate ms mode = Inr v0"
    and size: "list_all (\<lambda>c. int (length c) = chunk_size v0) (cs @ cs')"
    and run1: "feed_and_poll backend v0 cs = (rs, v1)"
    and cls1: "map fst rs = True # replicate (SILENCE_CHUNK_COUNT + 1) False"
    and run2: "feed_and_poll backend v1 cs' = (rs', v2)"
    and cls2: "map fst rs' = True # replicate (SILENCE_CHUNK_COUNT + 1) False"
  shows "map snd rs = replicate (SILENCE_CHUNK_COUNT + 1) False @ [True] \<and>
         \<not> active_speech_detected v1 \<and> silence_chunks_count v1 = 0 \<and>
         frame_buffer v1 = [] \<and>
         map snd rs' = replicate (SILENCE_CHUNK_COUNT + 1) False @ [True] \<and>
         \<not> active_speech_detected v2 \<and> silence_chunks_count v2 = 0 \<and>
         frame_buffer v2 = []"
proof -
  have s1: "list_all (\<lambda>c. int (length c) = chunk_size v0) cs"
    using size by simp
  have first: "map snd rs = replicate (SILENCE_CHUNK_COUNT + 1) False @ [True] \<and>
         \<not> active_speech_detected v1 \<and> silence_chunks_count v1 = 0 \<and>
         frame_buffer v1 = [] \<and> chunk_size v1 = chunk_size v0"
    by (rule speech_then_silence [OF s1 run1 cls1])
  then have s2: "list_all (\<lambda>c. int (length c) = chunk_size v1) cs'"
    using size by simp
  have second: "map snd rs' = replicate (SILENCE_CHUNK_COUNT + 1) False @ [True] \<and>
         \<not> active_speech_detected v2 \<and> silence_chunks_count v2 = 0 \<and>
         frame_buffer v2 = [] \<and> chunk_size v2 = chunk_size v1"
    by (rule speech_then_silence [OF s2 run2 cls2])
  from first second show ?thesis
    by simp
qed

lemma utterance_run:
  "feed_and_poll level_backend demo_vad utterance =
     ((True, False) # replicate SILENCE_CHUNK_COUNT (False, False) @ [(False, True)], demo_vad)"
  by code_simp


lemma utterance_sizes: "list_all (\<lambda>c. int (length c) = chunk_size demo_vad) (utterance @ utterance)"
  by code_simp

lemma utterance_classes:
  "map fst ((True, False) # replicate SILENCE_CHUNK_COUNT (False, False) @ [(False, True)]) =
     True # replicate (SILENCE_CHUNK_COUNT + 1) False"
  by code_simp

theorem vad_end_detection_witness:
  "map snd (fst (feed_and_poll level_backend demo_vad utterance)) =
     replicate (SILENCE_CHUNK_COUNT + 1) False @ [True] \<and>
   snd (feed_and_poll level_backend demo_vad utterance) = demo_vad \<and>
   \<not> active_speech_detected demo_vad \<and> frame_buffer demo_vad = []"
  using vad_end_detection [OF demo_vad_init utterance_sizes utterance_run utterance_classes
      utterance_run utterance_classes]
  by (simp add: utterance_run)

text \<open>
  C8.  From the initial detector, when every frame of a finite stream is classified as
  not speech, \<^verbatim>\<open>is_silence_end()\<close> asked after each frame never answers true.
\<close>

theorem silence_only_no_utterance_end:
  assumes init: "VADDetector_init backend rate ms mode = Inr v0"
    and run: "feed_and_poll backend v0 cs = (rs, v')"
    and cls: "list_all (\<lambda>r. \<not> fst r) rs"
  shows "list_all (\<lambda>r. \<not> snd r) rs"
proof -
  from init have "\<not> active_speech_detected v0"
    by (auto simp: VADDetector_init_def split: if_splits)
  from silence_only_never_ends [OF this run cls] show ?thesis
    by simp
qed

lemma long_silence_run:
  "feed_and_poll level_backend demo_vad long_silence =
     (replicate 60 (False, False),
      demo_vad\<lparr>frame_buffer := replicate 25 SILENCE_CHUNK\<rparr>)"
  by code_simp

lemma long_silence_classes: "list_all (\<lambda>r. \<not> fst r) (replicate 60 (False, False))"
  by code_simp

theorem silence_only_no_utterance_end_witness:
  "list_all (\<lambda>r. \<not> snd r) (fst (feed_and_poll level_backend demo_vad long_silence))"
  using silence_only_no_utterance_end [OF demo_vad_init long_silence_run long_silence_classes]
  by (simp add: long_silence_run)

lemma deque_append_length:
  "length xs \<le> n \<Longrightarrow> 0 < n \<Longrightarrow> length (deque_append n xs x) \<le> n"
  by (simp add: deque_append_def Let_def)

lemma deque_append_cases:
  "length xs \<le> n \<Longrightarrow> 0 < n \<Longrightarrow>
   deque_append n xs x = (if length xs < n then xs @ [x] else tl xs @ [x])"
  by (cases xs) (auto simp: deque_append_def Let_def)

text \<open>
  C6, as the code has it.  Every call of \<^verbatim>\<open>process_chunk\<close> keeps the frame buffer at
  no more than \<open>SILENCE_CHUNK_COUNT div 2\<close> frames.  A frame of the right size that is
  classified as not speech is appended, before and after the onset of speech alike, and
  the oldest frame leaves when the buffer is full.  A frame classified as speech leaves
  the buffer as it is, and so does a frame of the wrong size, which changes nothing at
  all.
\<close>

theorem process_chunk_frame_buffer:
  assumes bound: "length (frame_buffer v) \<le> SILENCE_CHUNK_COUNT div 2"
    and step: "process_chunk backend v c = (speech, v')"
  shows "length (frame_buffer v') \<le> SILENCE_CHUNK_COUNT div 2 \<and>
         (speech \<longrightarrow> frame_buffer v' = frame_buffer v) \<and>
         (int (length c) \<noteq> chunk_size v \<longrightarrow> \<not> speech \<and> v' = v) \<and>
         (\<not> speech \<and> int (length c) = chunk_size v \<longrightarrow>
            frame_buffer v' =
              (if length (frame_buffer v) < SILENCE_CHUNK_COUNT div 2
               then frame_buffer v @ [c] else tl (frame_buffer v) @ [c]))"
proof (cases "int (length c) = chunk_size v")
  case False
  with step bound show ?thesis
    by (simp add: process_chunk_def)
next
  case sz: True
  obtain sp b where cls: "is_speech backend (vad v) c (sample_rate v) = (sp, b)"
    by (cases "is_speech backend (vad v) c (sample_rate v)")
  have pos: "0 < SILENCE_CHUNK_COUNT div 2"
    by (simp add: SILENCE_CHUNK_COUNT_def)
  show ?thesis
  proof (cases sp)
    case True
    with step cls sz bound show ?thesis
      by (auto simp: process_chunk_def)
  next
    case False
    with step cls sz
    have sp: "\<not> speech"
      and buf: "frame_buffer v' = deque_append (SILENCE_CHUNK_COUNT div 2) (frame_buffer v) c"
      by (auto simp: process_chunk_def)
    from buf deque_append_length [OF bound pos] deque_append_cases [OF bound pos] sp sz
    show ?thesis
      by simp
  qed
qed

lemma demo_vad_bound: "length (frame_buffer demo_vad) \<le> SILENCE_CHUNK_COUNT div 2"
  by code_simp

lemma demo_vad_silence:
  "process_chunk level_backend demo_vad SILENCE_CHUNK =
     (False, demo_vad\<lparr>frame_buffer := [SILENCE_CHUNK]\<rparr>)"
  by code_simp

lemma demo_vad_silence_size: "int (length SILENCE_CHUNK) = chunk_size demo_vad"
  by code_simp

theorem process_chunk_frame_buffer_witness:
  "length (frame_buffer demo_vad) \<le> SILENCE_CHUNK_COUNT div 2 \<and>
   process_chunk level_backend demo_vad SILENCE_CHUNK =
     (False, demo_vad\<lparr>frame_buffer := [SILENCE_CHUNK]\<rparr>) \<and>
   int (length SILENCE_CHUNK) = chunk_size demo_vad \<and>
   length (frame_buffer (demo_vad\<lparr>frame_buffer := [SILENCE_CHUNK]\<rparr>)) \<le>
     SILENCE_CHUNK_COUNT div 2"
  using process_chunk_frame_buffer [OF demo_vad_bound demo_vad_silence]
    demo_vad_bound demo_vad_silence demo_vad_silence_size
  by simp

text \<open>
  The buffer is not emptied by a frame of speech, and it takes frames that follow the
  onset of speech: silence, speech, silence leaves both frames of silence in it.
\<close>

theorem lead_buffer_counterexample:
  "VADDetector_init level_backend 8000 1 3 = Inr demo_vad \<and>
   process_chunk level_backend demo_vad SILENCE_CHUNK =
     (False, demo_vad\<lparr>frame_buffer := [SILENCE_CHUNK]\<rparr>) \<and>
   process_chunk level_backend (demo_vad\<lparr>frame_buffer := [SILENCE_CHUNK]\<rparr>) NOISE_CHUNK =
     (True, demo_vad\<lparr>active_speech_detected := True, frame_buffer := [SILENCE_CHUNK]\<rparr>) \<and>
   process_chunk level_backend
       (demo_vad\<lparr>active_speech_detected := True, frame_buffer := [SILENCE_CHUNK]\<rparr>)
       SILENCE_CHUNK =
     (False, demo_vad\<lparr>active_speech_detected := True, silence_chunks_count := 1,
                       frame_buffer := [SILENCE_CHUNK, SILENCE_CHUNK]\<rparr>)"
  by code_simp

section \<open>The stream queues\<close>

text \<open>
  A \<^verbatim>\<open>put\<close> on a closed queue returns like any other call; it does not raise
  \<open>ChannelClosed\<close>, and the queue stays as it is.
\<close>

theorem put_after_close_counterexample:
  "AudioQueue_put (AudioQueue_close AudioQueue_init) [1, 2] = Inr (AudioQueue_close AudioQueue_init) \<and>
   AudioQueue_put (AudioQueue_close AudioQueue_init) [1, 2] \<noteq> Inl ChannelClosed \<and>
   TextQueue_put (TextQueue_close TextQueue_init) (S ''OK'') = Inr (TextQueue_close TextQueue_init) \<and>
   TextQueue_put (TextQueue_close TextQueue_init) (S ''OK'') \<noteq> Inl ChannelClosed \<and>
   PCMQueue_put (PCMQueue_close PCMQueue_init) [1, 2] = Inr (PCMQueue_close PCMQueue_init) \<and>
   PCMQueue_put (PCMQueue_close PCMQueue_init) [1, 2] \<noteq> Inl ChannelClosed"
  by (simp add: AudioQueue_put_def AudioQueue_close_def TextQueue_put_def TextQueue_close_def
      PCMQueue_put_def PCMQueue_close_def)

text \<open>
  C5, as the code has it.  For each of \<^verbatim>\<open>AudioQueue\<close>, \<^verbatim>\<open>TextQueue\<close> and
  \<^verbatim>\<open>PCMQueue\<close>: \<^verbatim>\<open>close()\<close> marks the queue as finished, and every \<^verbatim>\<open>put\<close> on a
  finished queue returns without an error and leaves the queue unchanged, the chunk
  being dropped.
\<close>

theorem put_after_close_ignored:
  "is_finished (AudioQueue_close qa) \<and> is_finished (TextQueue_close qt) \<and>
   is_finished (PCMQueue_close qp) \<and>
   (is_finished qa \<longrightarrow> AudioQueue_put qa chunk = Inr qa) \<and>
   (is_finished qt \<longrightarrow> TextQueue_put qt text_chunk = Inr qt) \<and>
   (is_finished qp \<longrightarrow> PCMQueue_put qp pcm_chunk = Inr qp)"
  by (simp add: AudioQueue_put_def AudioQueue_close_def TextQueue_put_def TextQueue_close_def
      PCMQueue_put_def PCMQueue_close_def)

theorem put_after_close_ignored_witness:
  "is_finished (AudioQueue_close AudioQueue_init) \<and>
   AudioQueue_put (AudioQueue_close AudioQueue_init) NOISE_CHUNK =
     Inr (AudioQueue_close AudioQueue_init) \<and>
   is_finished (TextQueue_close TextQueue_init) \<and>
   TextQueue_put (TextQueue_close TextQueue_init) APOLOGY = Inr (TextQueue_close TextQueue_init) \<and>
   is_finished (PCMQueue_close PCMQueue_init) \<and>
   PCMQueue_put (PCMQueue_close PCMQueue_init) NOISE_CHUNK = Inr (PCMQueue_close PCMQueue_init)"
  using put_after_close_ignored [where qa = "AudioQueue_close AudioQueue_init"
      and qt = "TextQueue_close TextQueue_init" and qp = "PCMQueue_close PCMQueue_init"
      and chunk = NOISE_CHUNK and text_chunk = APOLOGY and pcm_chunk = NOISE_CHUNK]
  by (simp add: AudioQueue_close_def TextQueue_close_def PCMQueue_close_def)

section \<open>Frames on the wire\<close>






section \<open>The conversation pipeline\<close>

lemmas text_defs = match_here_def name_char_def arg_char_def word_char_def isspace_def
  falsy_def re_sub_def strip_def remove_char_def detect_wakeup_word_def plain_alnum_def

lemmas queue_defs = AudioQueue_put_def AudioQueue_close_def AudioQueue_init_def
  TextQueue_put_def TextQueue_close_def TextQueue_init_def
  PCMQueue_put_def PCMQueue_close_def PCMQueue_init_def delivered_def
  StreamingManager_init_def start_new_conversation_def get_queues_def close_all_def
  close_all_objects_def

lemmas pipeline_defs = Let_def run_pipeline_def asr_to_llm_def llm_chat_and_parse_def finish_def
  asr_step_def start_new_session_def start_stream_def end_stream_def transcribe_stream_def

lemmas demo_defs = scripted_env_def scripted_model_def new_pipeline_def upload_def session_def
  WAKE_def REQUEST_def listening_def heard_def SPLIT_ASCII_def SPLIT_WIDE_def SPACED_def

lemma literals:
  "S ''OK '' = [79, 75, 32]"
  "S ''[ACTION:forward(5)]'' =
     [91, 65, 67, 84, 73, 79, 78, 58, 102, 111, 114, 119, 97, 114, 100, 40, 53, 41, 93]"
  "S '' [ACTION:stop()]'' = [32, 91, 65, 67, 84, 73, 79, 78, 58, 115, 116, 111, 112, 40, 41, 93]"
  "S ''[ACTION:'' = [91, 65, 67, 84, 73, 79, 78, 58]"
  "S ''forward(5)'' = [102, 111, 114, 119, 97, 114, 100, 40, 53, 41]"
  "S ''OK [ACTION:forward(5)]'' =
     [79, 75, 32, 91, 65, 67, 84, 73, 79, 78, 58, 102, 111, 114, 119, 97, 114, 100, 40, 53, 41, 93]"
  by (simp_all add: S_def)

lemma parsed_locally:
  "fst (snd (llm_loop plain_alnum
               [S ''OK '', S ''[ACTION:forward(5)]'', S '' [ACTION:stop()]'']
               ([], None, TextQueue_init))) =
     Some (S ''forward(5)'')"
  by (simp add: literals text_defs queue_defs Let_def)

lemma whole_run: "run_pipeline env_whole (session env_whole) =
     Some (Inr \<lparr>success = True, command = None,
                final_pipeline =
                  \<lparr>asr_engine = \<lparr>wakeup_word = WAKE, stream_instance = None\<rparr>,
                   manager = StreamingManager_init, conversation_active = True\<rparr>,
                final_audio_in = \<lparr>queue = [Some [0, 0], None, None], is_finished = True\<rparr>,
                final_text_out =
                  \<lparr>queue = [Some (S ''OK ''), Some (S '' [ACTION:stop()]''), None, None],
                   is_finished = True\<rparr>,
                final_pcm_out =
                  \<lparr>queue = [Some [1, 1], Some [1, 1], None, None], is_finished = True\<rparr>\<rparr>)"
  by (simp add: env_whole_def literals text_defs queue_defs pipeline_defs demo_defs)

lemma chars_run: "run_pipeline env_chars (session env_chars) =
     Some (Inr \<lparr>success = True, command = None,
                final_pipeline =
                  \<lparr>asr_engine = \<lparr>wakeup_word = WAKE, stream_instance = None\<rparr>,
                   manager = StreamingManager_init, conversation_active = True\<rparr>,
                final_audio_in = \<lparr>queue = [Some [0, 0], None, None], is_finished = True\<rparr>,
                final_text_out =
                  \<lparr>queue = map (\<lambda>c. Some [c]) (S ''OK [ACTION:forward(5)]'') @ [None, None],
                   is_finished = True\<rparr>,
                final_pcm_out =
                  \<lparr>queue = map (\<lambda>c. Some [1, 1]) (S ''OK [ACTION:forward(5)]'') @ [None, None], is_finished = True\<rparr>\<rparr>)"
  by (simp add: env_chars_def literals text_defs queue_defs pipeline_defs demo_defs)

text \<open>
  Whatever the engines do, \<^verbatim>\<open>run_pipeline\<close> never returns an action command: the
  dictionary of \<^verbatim>\<open>_asr_to_llm\<close> always has \<^verbatim>\<open>None\<close> under \<^verbatim>\<open>action_command\<close>.
\<close>

lemma asr_to_llm_command:
  "asr_to_llm E p audio t = (Inr r, p', t', pr) \<Longrightarrow> action_command r = None"
  by (auto simp: asr_to_llm_def Let_def split: prod.splits option.splits sum.splits if_splits)

lemma run_pipeline_command:
  assumes "run_pipeline E p = Some (Inr out)"
  shows "command out = None"
proof -
  from assms obtain a t c where q: "get_queues (manager p) = Inr (a, t, c)"
    by (cases "get_queues (manager p)") (auto simp: run_pipeline_def)
  obtain r p1 t1 pr where asr: "asr_to_llm E p (delivered (queue a)) t = (r, p1, t1, pr)"
    by (cases "asr_to_llm E p (delivered (queue a)) t") auto
  show ?thesis
  proof (cases r)
    case (Inl e)
    with assms q asr show ?thesis
      by (auto simp: run_pipeline_def finish_def close_all_objects_def split: if_splits)
  next
    case (Inr res)
    with asr have "action_command res = None"
      by (simp add: asr_to_llm_command)
    with assms q asr Inr show ?thesis
      by (auto simp: run_pipeline_def finish_def close_all_objects_def
          split: if_splits option.splits prod.splits)
  qed
qed

text \<open>
  C1, where the code departs from it.  In the first session the reply comes in the
  three fragments \<open>OK\<close> with a space, \<open>[ACTION:forward(5)]\<close>, and \<open>[ACTION:stop()]\<close>
  after a space.  The loop of \<^verbatim>\<open>_llm_chat_and_parse\<close> does find \<open>forward(5)\<close>, but
  \<^verbatim>\<open>run_pipeline\<close> returns \<^verbatim>\<open>(True, None)\<close>, and the second tag reaches the
  synthesis stage as it is.  In the second session the reply \<open>OK [ACTION:forward(5)]\<close>
  comes character by character: \<^verbatim>\<open>run_pipeline\<close> returns \<^verbatim>\<open>(True, None)\<close> again, and
  the whole tag reaches the synthesis stage.
\<close>

theorem action_command_dropped:
  "fst (snd (llm_loop plain_alnum
               [S ''OK '', S ''[ACTION:forward(5)]'', S '' [ACTION:stop()]'']
               ([], None, TextQueue_init))) =
     Some (S ''forward(5)'') \<and>
   returned (run_pipeline env_whole (session env_whole)) = Some (True, None) \<and>
   spoken (run_pipeline env_whole (session env_whole)) = Some (S ''OK  [ACTION:stop()]'') \<and>
   returned (run_pipeline env_chars (session env_chars)) = Some (True, None) \<and>
   spoken (run_pipeline env_chars (session env_chars)) = Some (S ''OK [ACTION:forward(5)]'')"
  by (intro conjI)
     (rule parsed_locally,
      simp add: whole_run returned_def,
      simp add: whole_run spoken_def delivered_def S_def,
      simp add: chars_run returned_def,
      simp add: chars_run spoken_def delivered_def literals)

















lemma remove_chars_filter:
  "remove_char 32 (remove_char 12290 (remove_char 65292 s)) =
     filter (\<lambda>x. x \<noteq> 65292 \<and> x \<noteq> 12290 \<and> x \<noteq> 32) s"
  by (simp add: remove_char_def conj_ac)

lemma remove_first_occurrence:
  "contains w s \<Longrightarrow>
   \<exists>a b. s = a @ w @ b \<and> remove_first w s = a @ b \<and>
         (\<forall>a' b'. s = a' @ w @ b' \<longrightarrow> length a \<le> length a')"
proof (induction s)
  case Nil
  then show ?case by simp
next
  case (Cons c cs)
  show ?case
  proof (cases "prefix w (c # cs)")
    case True
    then obtain b where b: "c # cs = w @ b"
      by (auto simp: prefix_def)
    then have "drop (length w) (c # cs) = b"
      by (metis append_eq_conv_conj)
    moreover from True have "remove_first w (c # cs) = drop (length w) (c # cs)"
      by simp
    ultimately have "c # cs = [] @ w @ b \<and> remove_first w (c # cs) = [] @ b"
      using b by simp
    then show ?thesis
      by (metis list.size(3) le0)
  next
    case False
    with Cons.prems have "contains w cs"
      by simp
    from Cons.IH [OF this] obtain a b where
      ab: "cs = a @ w @ b" "remove_first w cs = a @ b" and
      least: "\<forall>a' b'. cs = a' @ w @ b' \<longrightarrow> length a \<le> length a'"
      by blast
    have first: "\<forall>a' b'. c # cs = a' @ w @ b' \<longrightarrow> length (c # a) \<le> length a'"
    proof (intro allI impI)
      fix a' b'
      assume eq: "c # cs = a' @ w @ b'"
      show "length (c # a) \<le> length a'"
      proof (cases a')
        case Nil
        with eq have "prefix w (c # cs)"
          by (simp add: prefix_def)
        with False show ?thesis by simp
      next
        case (Cons x a'')
        with eq have "cs = a'' @ w @ b'"
          by simp
        with least have "length a \<le> length a''"
          by blast
        with Cons show ?thesis by simp
      qed
    qed
    from ab False have "c # cs = (c # a) @ w @ b \<and> remove_first w (c # cs) = (c # a) @ b"
      by simp
    with first show ?thesis
      by blast
  qed
qed

lemma asr_step_gate:
  assumes "asr_step E (p, full, t, pr) c = (err, p', full', t', pr')"
  shows "(conversation_active p \<longrightarrow> conversation_active p' \<and> pr' = pr \<and> t' = t) \<and>
         length pr' \<le> length pr + 1 \<and>
         (pr' \<noteq> pr \<longrightarrow> \<not> conversation_active p \<and> conversation_active p')"
  using assms
  by (auto simp: asr_step_def Let_def split: sum.splits prod.splits if_splits)

lemma asr_loop_gate:
  assumes "asr_loop E audio (p, full, t, pr) = (err, p', full', t', pr')"
  shows "(conversation_active p \<longrightarrow> conversation_active p' \<and> pr' = pr \<and> t' = t) \<and>
         length pr' \<le> length pr + 1 \<and>
         (pr' \<noteq> pr \<longrightarrow> \<not> conversation_active p \<and> conversation_active p')"
  using assms
proof (induction audio arbitrary: p full t pr)
  case Nil
  then show ?case by simp
next
  case (Cons c rest)
  obtain e1 p1 full1 t1 pr1 where step: "asr_step E (p, full, t, pr) c = (e1, p1, full1, t1, pr1)"
    by (cases "asr_step E (p, full, t, pr) c") auto
  note g1 = asr_step_gate [OF step]
  show ?case
  proof (cases e1)
    case (Some e)
    with Cons.prems step have "p' = p1" "pr' = pr1" "t' = t1"
      by simp_all
    with g1 show ?thesis by simp
  next
    case None
    with Cons.prems step have "asr_loop E rest (p1, full1, t1, pr1) = (err, p', full', t', pr')"
      by simp
    note g2 = Cons.IH [OF this]
    show ?thesis
    proof (cases "pr1 = pr")
      case True
      with g1 g2 show ?thesis by auto
    next
      case False
      with g1 have "conversation_active p1" "\<not> conversation_active p" "length pr1 \<le> length pr + 1"
        by simp_all
      with g2 show ?thesis by auto
    qed
  qed
qed

text \<open>
  The comparison ignores three characters only, the prompt is stripped of white space
  at both ends, and the wake phrase stays in the prompt when it is only found after the
  three characters are removed.
\<close>

theorem wake_phrase_counterexample:
  "remove_char 44 SPLIT_ASCII = WAKE \<and>
   asr_step (scripted_env [Some SPLIT_ASCII] []) (listening SPLIT_ASCII, [], TextQueue_init, [])
       [0, 0] =
     (None, heard, SPLIT_ASCII, TextQueue_init, []) \<and>
   asr_step (scripted_env [Some SPACED] []) (listening SPACED, [], TextQueue_init, []) [0, 0] =
     (None, heard\<lparr>conversation_active := True\<rparr>, SPACED,
      \<lparr>queue = [None], is_finished = True\<rparr>, [[21069, 36827]]) \<and>
   remove_first WAKE SPACED = [32, 21069, 36827] \<and>
   asr_step (scripted_env [Some SPLIT_WIDE] []) (listening SPLIT_WIDE, [], TextQueue_init, [])
       [0, 0] =
     (None, heard\<lparr>conversation_active := True\<rparr>, SPLIT_WIDE,
      \<lparr>queue = [None], is_finished = True\<rparr>, [SPLIT_WIDE])"
  by (simp add: text_defs queue_defs pipeline_defs demo_defs)

text \<open>
  C7, as the code has it.  After a chunk whose interim text \<open>tx\<close> is not empty the
  transcript is \<open>full @ tx\<close>.  While the wake flag is false, the wake phrase is detected
  exactly when it occurs in the transcript with every full-width comma, ideographic full
  stop and space removed; then the flag is set, and the generation stage is started once
  with the transcript from which the first literal occurrence of the wake phrase is
  removed (when there is one, \<open>remove_first\<close> cuts exactly that occurrence) and which is
  then stripped of white space at both ends.  With the flag true nothing is started.
  Over a whole session the flag never goes back to false and at most one prompt is
  handed to the generation stage.
\<close>

theorem wake_gate:
  "(transcribe_stream (model E) (asr_engine p) c = Inr (Some tx, asr) \<and> tx \<noteq> [] \<longrightarrow>
      asr_step E (p, full, t, pr) c =
        (if \<not> conversation_active p \<and>
            contains (wakeup_word asr)
              (filter (\<lambda>x. x \<noteq> 65292 \<and> x \<noteq> 12290 \<and> x \<noteq> 32) (full @ tx))
         then (None, p\<lparr>asr_engine := asr, conversation_active := True\<rparr>, full @ tx,
               llm_chat_and_parse E (strip (remove_first (wakeup_word asr) (full @ tx))) t,
               pr @ [strip (remove_first (wakeup_word asr) (full @ tx))])
         else (None, p\<lparr>asr_engine := asr\<rparr>, full @ tx, t, pr))) \<and>
   (contains w s \<longrightarrow>
      (\<exists>a b. s = a @ w @ b \<and> remove_first w s = a @ b \<and>
             (\<forall>a' b'. s = a' @ w @ b' \<longrightarrow> length a \<le> length a'))) \<and>
   (asr_loop E audio (p, full, t, pr) = (err, p', full', t', pr') \<longrightarrow>
      (conversation_active p \<longrightarrow> conversation_active p' \<and> pr' = pr \<and> t' = t) \<and>
      length pr' \<le> length pr + 1 \<and>
      (pr' \<noteq> pr \<longrightarrow> \<not> conversation_active p \<and> conversation_active p'))"
proof -
  have step:
    "transcribe_stream (model E) (asr_engine p) c = Inr (Some tx, asr) \<and> tx \<noteq> [] \<longrightarrow>
      asr_step E (p, full, t, pr) c =
        (if \<not> conversation_active p \<and>
            contains (wakeup_word asr)
              (filter (\<lambda>x. x \<noteq> 65292 \<and> x \<noteq> 12290 \<and> x \<noteq> 32) (full @ tx))
         then (None, p\<lparr>asr_engine := asr, conversation_active := True\<rparr>, full @ tx,
               llm_chat_and_parse E (strip (remove_first (wakeup_word asr) (full @ tx))) t,
               pr @ [strip (remove_first (wakeup_word asr) (full @ tx))])
         else (None, p\<lparr>asr_engine := asr\<rparr>, full @ tx, t, pr))"
    by (simp add: asr_step_def Let_def falsy_def detect_wakeup_word_def remove_chars_filter)
  have cut:
    "contains w s \<longrightarrow>
      (\<exists>a b. s = a @ w @ b \<and> remove_first w s = a @ b \<and>
             (\<forall>a' b'. s = a' @ w @ b' \<longrightarrow> length a \<le> length a'))"
    using remove_first_occurrence by blast
  have once:
    "asr_loop E audio (p, full, t, pr) = (err, p', full', t', pr') \<longrightarrow>
      (conversation_active p \<longrightarrow> conversation_active p' \<and> pr' = pr \<and> t' = t) \<and>
      length pr' \<le> length pr + 1 \<and>
      (pr' \<noteq> pr \<longrightarrow> \<not> conversation_active p \<and> conversation_active p')"
    using asr_loop_gate by blast
  show ?thesis
    by (intro conjI) (fact step, fact cut, fact once)
qed

lemma request_heard:
  "transcribe_stream (model (scripted_env [Some REQUEST] [])) (asr_engine (listening REQUEST))
       [0, 0] =
     Inr (Some REQUEST, asr_engine heard) \<and> REQUEST \<noteq> []"
  by (simp add: text_defs queue_defs pipeline_defs demo_defs)

lemma request_contains_wake: "contains WAKE REQUEST"
  by (simp add: demo_defs)

lemma request_loop:
  "asr_loop (scripted_env [Some REQUEST] []) [[0, 0]] (listening REQUEST, [], TextQueue_init, []) =
     (None, heard\<lparr>conversation_active := True\<rparr>, REQUEST,
      \<lparr>queue = [None], is_finished = True\<rparr>, [[65292, 21069, 36827]])"
  by (simp add: text_defs queue_defs pipeline_defs demo_defs)

theorem wake_gate_witness:
  "asr_step (scripted_env [Some REQUEST] []) (listening REQUEST, [], TextQueue_init, []) [0, 0] =
     (None, heard\<lparr>conversation_active := True\<rparr>, REQUEST,
      \<lparr>queue = [None], is_finished = True\<rparr>, [[65292, 21069, 36827]]) \<and>
   (\<exists>a b. REQUEST = a @ WAKE @ b \<and> remove_first WAKE REQUEST = a @ b) \<and>
   length [[65292, 21069, 36827 :: nat]] \<le> 1"
proof -
  note gate = wake_gate [where E = "scripted_env [Some REQUEST] []" and p = "listening REQUEST"
      and c = "[0, 0]" and tx = REQUEST and asr = "asr_engine heard" and full = "[]"
      and t = TextQueue_init and pr = "[]" and w = WAKE and s = REQUEST and audio = "[[0, 0]]"
      and err = None and p' = "heard\<lparr>conversation_active := True\<rparr>" and full' = REQUEST
      and t' = "\<lparr>queue = [None], is_finished = True\<rparr>" and pr' = "[[65292, 21069, 36827]]"]
  from gate request_heard
  have "asr_step (scripted_env [Some REQUEST] []) (listening REQUEST, [], TextQueue_init, []) [0, 0] =
     (None, heard\<lparr>conversation_active := True\<rparr>, REQUEST,
      \<lparr>queue = [None], is_finished = True\<rparr>, [[65292, 21069, 36827]])"
    by (simp add: text_defs queue_defs pipeline_defs demo_defs)
  moreover from gate request_contains_wake
  have "\<exists>a b. REQUEST = a @ WAKE @ b \<and> remove_first WAKE REQUEST = a @ b"
    by blast
  moreover from gate request_loop
  have "length [[65292, 21069, 36827 :: nat]] \<le> 1"
    by simp
  ultimately show ?thesis
    by blast
qed

section \<open>One car at a time\<close>

text \<open>
  C9.  While a car connection is active, \<^verbatim>\<open>_handle_connection\<close> for another
  connection closes that connection with code 1008, starts no session, and leaves the
  server, with the active connection, the pipeline and its queues, as it was.
\<close>

theorem second_connection_refused:
  assumes "car_connection srv \<noteq> None"
  shows "handle_connection H srv ws path =
           (None, srv, [WsClose ws 1008 (S ''Already connected'')])"
  using assms by (simp add: handle_connection_def)

lemma busy_server_connected: "car_connection busy_server \<noteq> None"
  by (simp add: busy_server_def)

theorem second_connection_refused_witness:
  "car_connection busy_server = Some 1 \<and>
   handle_connection idle_handlers busy_server 2 (S ''/audio/in'') =
     (None, busy_server, [WsClose 2 1008 (S ''Already connected'')])"
  using second_connection_refused [OF busy_server_connected, of idle_handlers 2 "S ''/audio/in''"]
  by (simp add: busy_server_def)


end
